theory Spec2Isabelle
  imports Complex_Main
begin

section \<open>JavaScript values used by the reviewer\<close>

text \<open>
  The action is one TypeScript file, \<^verbatim>\<open>src/main.ts\<close>; a second copy of it differs
  in the wording of the prompt, in the options of the request and in how it logs, and
  reads the same in everything modelled here but the prompt text. Strings are modelled
  as \<^typ>\<open>string\<close>, one \<^typ>\<open>char\<close> per code unit, which covers the code units
  below 256. A value that may be \<^verbatim>\<open>undefined\<close> or \<^verbatim>\<open>null\<close> is an
  \<^typ>\<open>'a option\<close>. Writing to the log is not modelled.
\<close>

subsection \<open>Numbers\<close>

text \<open>
  A JavaScript number is an IEEE 754 double: \<open>Num q\<close> is the finite double of
  rational value \<open>q\<close> (\<open>Num 0\<close> is \<^verbatim>\<open>+0\<close>), \<open>NegZero\<close> is \<^verbatim>\<open>-0\<close>.
\<close>

datatype jsnum = NaN | PosInf | NegInf | NegZero | Num rat

definition pow2 :: "int \<Rightarrow> rat" where
  "pow2 k = (if 0 \<le> k then 2 ^ nat k else 1 / 2 ^ nat (- k))"

definition pow10 :: "int \<Rightarrow> rat" where
  "pow10 k = (if 0 \<le> k then 10 ^ nat k else 1 / 10 ^ nat (- k))"

fun bit_length :: "nat \<Rightarrow> nat" where
  "bit_length n = (if n = 0 then 0 else Suc (bit_length (n div 2)))"

declare bit_length.simps [simp del]

definition floor_log2 :: "rat \<Rightarrow> int" where
  \<comment> \<open>for \<open>0 < q\<close>: the \<open>e\<close> with \<open>2 ^ e \<le> q < 2 ^ (e + 1)\<close>\<close>
  "floor_log2 q =
     (let (a, b) = quotient_of q;
          k = int (bit_length (nat a)) - int (bit_length (nat b))
      in if pow2 k \<le> q then k else k - 1)"

definition round_half_even :: "rat \<Rightarrow> int" where
  "round_half_even x =
     (let f = \<lfloor>x\<rfloor>; d = x - of_int f
      in if d < 1 / 2 then f else if 1 / 2 < d then f + 1
         else if even f then f else f + 1)"

definition to_double :: "rat \<Rightarrow> jsnum" where
  \<comment> \<open>the Number value for a mathematical value \<open>0 \<le> q\<close>: round to nearest, ties to
      even, 53 bits of precision, least exponent \<open>-1074\<close>, overflow to infinity\<close>
  "to_double q =
     (if q = 0 then Num 0
      else let e = floor_log2 q;
               p = max (e - 52) (- 1074);
               m = round_half_even (q * pow2 (- p));
               r = of_int m * pow2 p
           in if pow2 1024 \<le> r then PosInf else Num r)"

fun negate :: "jsnum \<Rightarrow> jsnum" where
  "negate NaN = NaN"
| "negate PosInf = NegInf"
| "negate NegInf = PosInf"
| "negate NegZero = Num 0"
| "negate (Num q) = (if q = 0 then NegZero else Num (- q))"

subsection \<open>Strings to numbers\<close>

text \<open>
  \<^verbatim>\<open>Number(s)\<close> on a string is the StringToNumber operation of ECMAScript:
  white space is stripped from both ends, the empty string is 0, the rest must be a
  decimal literal (sign, digits, fraction, exponent, or \<^verbatim>\<open>Infinity\<close>) or an
  unsigned binary, octal or hexadecimal integer literal; anything else is NaN. The
  value of a literal is rounded to the nearest double (\<open>to_double\<close>), as V8 does for
  literals of any length.
\<close>

definition is_white_space :: "char \<Rightarrow> bool" where
  \<comment> \<open>TAB, LF, VT, FF, CR, SP, NBSP\<close>
  "is_white_space c = (of_char c \<in> {9, 10, 11, 12, 13, 32, 160 :: nat})"

definition trim :: "string \<Rightarrow> string" where
  "trim s = rev (dropWhile is_white_space (rev (dropWhile is_white_space s)))"

definition digit_of :: "char \<Rightarrow> nat option" where
  "digit_of c =
     (let n = of_char c :: nat
      in if 48 \<le> n \<and> n \<le> 57 then Some (n - 48)
         else if 97 \<le> n \<and> n \<le> 102 then Some (n - 87)
         else if 65 \<le> n \<and> n \<le> 70 then Some (n - 55)
         else None)"

definition is_digit :: "nat \<Rightarrow> char \<Rightarrow> bool" where
  "is_digit radix c = (case digit_of c of None \<Rightarrow> False | Some d \<Rightarrow> d < radix)"

definition digit_val :: "char \<Rightarrow> nat" where
  "digit_val c = (case digit_of c of None \<Rightarrow> 0 | Some d \<Rightarrow> d)"

definition digits_value :: "nat \<Rightarrow> string \<Rightarrow> nat" where
  "digits_value radix ds = foldl (\<lambda>a c. a * radix + digit_val c) 0 ds"

definition all_digits :: "nat \<Rightarrow> string \<Rightarrow> bool" where
  "all_digits radix ds = (ds \<noteq> [] \<and> list_all (is_digit radix) ds)"

definition SignedInteger :: "string \<Rightarrow> int option" where
  "SignedInteger s =
     (case s of
        [] \<Rightarrow> None
      | c # ds \<Rightarrow>
          if c = CHR ''+'' then (if all_digits 10 ds then Some (int (digits_value 10 ds)) else None)
          else if c = CHR ''-'' then (if all_digits 10 ds then Some (- int (digits_value 10 ds)) else None)
          else if all_digits 10 s then Some (int (digits_value 10 s)) else None)"

definition ExponentPart_opt :: "string \<Rightarrow> int option" where
  "ExponentPart_opt s =
     (case s of
        [] \<Rightarrow> Some 0
      | c # r \<Rightarrow> if c = CHR ''e'' \<or> c = CHR ''E'' then SignedInteger r else None)"

definition StrUnsignedDecimalLiteral :: "string \<Rightarrow> jsnum option" where
  "StrUnsignedDecimalLiteral s =
     (if s = ''Infinity'' then Some PosInf
      else
        let ip = takeWhile (is_digit 10) s;
            r1 = dropWhile (is_digit 10) s;
            fp = (case r1 of [] \<Rightarrow> [] | c # r \<Rightarrow> if c = CHR ''.'' then takeWhile (is_digit 10) r else []);
            r2 = (case r1 of [] \<Rightarrow> [] | c # r \<Rightarrow> if c = CHR ''.'' then dropWhile (is_digit 10) r else r1)
        in if ip = [] \<and> fp = [] then None
           else case ExponentPart_opt r2 of
                  None \<Rightarrow> None
                | Some ex \<Rightarrow>
                    Some (to_double (of_nat (digits_value 10 (ip @ fp)) * pow10 (ex - int (length fp)))))"

definition StrDecimalLiteral :: "string \<Rightarrow> jsnum option" where
  "StrDecimalLiteral s =
     (case s of
        [] \<Rightarrow> None
      | c # r \<Rightarrow>
          if c = CHR ''+'' then StrUnsignedDecimalLiteral r
          else if c = CHR ''-'' then map_option negate (StrUnsignedDecimalLiteral r)
          else StrUnsignedDecimalLiteral s)"

definition NonDecimalIntegerLiteral :: "string \<Rightarrow> jsnum option" where
  "NonDecimalIntegerLiteral s =
     (case s of
        z # x # ds \<Rightarrow>
          if z \<noteq> CHR ''0'' then None
          else if x = CHR ''b'' \<or> x = CHR ''B'' then
            (if all_digits 2 ds then Some (to_double (of_nat (digits_value 2 ds))) else None)
          else if x = CHR ''o'' \<or> x = CHR ''O'' then
            (if all_digits 8 ds then Some (to_double (of_nat (digits_value 8 ds))) else None)
          else if x = CHR ''x'' \<or> x = CHR ''X'' then
            (if all_digits 16 ds then Some (to_double (of_nat (digits_value 16 ds))) else None)
          else None
      | _ \<Rightarrow> None)"

definition Number :: "string \<Rightarrow> jsnum" where
  "Number s =
     (let t = trim s
      in if t = [] then Num 0
         else case StrDecimalLiteral t of
                Some v \<Rightarrow> v
              | None \<Rightarrow> (case NonDecimalIntegerLiteral t of Some v \<Rightarrow> v | None \<Rightarrow> NaN))"

section \<open>The data of a run\<close>

text \<open>
  \<open>file\<close>, \<open>chunk\<close> and \<open>change\<close> are the \<^verbatim>\<open>File\<close>, \<^verbatim>\<open>Chunk\<close> and
  \<^verbatim>\<open>Change\<close> of the parse-diff package, with the fields \<^verbatim>\<open>main.ts\<close> reads.
  An added line carries its number in the new file in \<^verbatim>\<open>ln\<close>, a deleted line its
  number in the old file in \<^verbatim>\<open>ln\<close>, and a context line both, in \<^verbatim>\<open>ln1\<close>
  (old) and \<^verbatim>\<open>ln2\<close> (new). The field \<^verbatim>\<open>content\<close> of a chunk, its hunk header,
  is \<open>chunk_content\<close>; \<^verbatim>\<open>to\<close> is optional in \<^verbatim>\<open>File\<close>. A finding is an element
  of \<^verbatim>\<open>reviews\<close> in the zod schema \<^verbatim>\<open>ReviewResponse\<close>, a comment an element of the
  array that \<^verbatim>\<open>analyzeCode\<close> returns.
\<close>

datatype change =
    AddChange (content: string) nat
  | DeleteChange (content: string) nat
  | NormalChange (content: string) nat nat

record chunk =
  chunk_content :: string
  changes :: "change list"

record "file" =
  to :: "string option"
  chunks :: "chunk list"

record PRDetails =
  owner :: string
  repo :: string
  pull_number :: nat
  title :: string
  description :: string

record finding =
  lineNumber :: string
  reviewComment :: string

record comment =
  body :: string
  path :: string
  line :: jsnum

section \<open>createComment\<close>

text \<open>
  \<^verbatim>\<open>aiResponses.flatMap\<close> with a callback that returns \<^verbatim>\<open>[]\<close> when
  \<^verbatim>\<open>!file.to\<close> (the path is undefined or the empty string) and one object
  otherwise.
\<close>

definition falsy_string :: "string option \<Rightarrow> bool" where
  "falsy_string v = (case v of None \<Rightarrow> True | Some s \<Rightarrow> s = [])"

definition createComment :: "file \<Rightarrow> chunk \<Rightarrow> finding list \<Rightarrow> comment list" where
  "createComment file chunk aiResponses =
     concat (map (\<lambda>aiResponse.
       if falsy_string (to file) then []
       else [\<lparr>body = reviewComment aiResponse,
              path = (case to file of None \<Rightarrow> [] | Some p \<Rightarrow> p),
              line = Number (lineNumber aiResponse)\<rparr>]) aiResponses)"

section \<open>createPrompt\<close>

text \<open>
  \<open>join\<close> is \<^verbatim>\<open>Array.prototype.join\<close>. A template literal renders
  \<^verbatim>\<open>undefined\<close> as the text \<^verbatim>\<open>undefined\<close> and a number through
  \<^verbatim>\<open>Number::toString\<close>, which is the parameter \<open>num_str\<close>. The fields
  \<^verbatim>\<open>ln\<close> and \<^verbatim>\<open>ln2\<close> of a change are \<open>ln_field\<close> (\<open>ln\<close> is the
  logarithm) and \<open>ln2\<close>, \<open>None\<close> for a change that has no such field.
\<close>

fun join :: "string \<Rightarrow> string list \<Rightarrow> string" where
  "join sep [] = []"
| "join sep [x] = x"
| "join sep (x # y # r) = x @ sep @ join sep (y # r)"

fun ln_field :: "change \<Rightarrow> nat option" where
  "ln_field (AddChange _ n) = Some n"
| "ln_field (DeleteChange _ n) = Some n"
| "ln_field (NormalChange _ _ _) = None"

fun ln2 :: "change \<Rightarrow> nat option" where
  "ln2 (NormalChange _ _ n2) = Some n2"
| "ln2 _ = None"

definition truthy_number :: "nat option \<Rightarrow> bool" where
  "truthy_number v = (case v of None \<Rightarrow> False | Some n \<Rightarrow> n \<noteq> 0)"

definition template_number :: "(nat \<Rightarrow> string) \<Rightarrow> nat option \<Rightarrow> string" where
  "template_number num_str v = (case v of None \<Rightarrow> ''undefined'' | Some n \<Rightarrow> num_str n)"

definition template_string :: "string option \<Rightarrow> string" where
  "template_string v = (case v of None \<Rightarrow> ''undefined'' | Some s \<Rightarrow> s)"

definition change_line :: "(nat \<Rightarrow> string) \<Rightarrow> change \<Rightarrow> string" where
  \<comment> \<open>the callback of \<^verbatim>\<open>chunk.changes.map\<close>\<close>
  "change_line num_str c =
     template_number num_str (if truthy_number (ln_field c) then ln_field c else ln2 c) @ '' '' @ content c"

definition newline :: string where
  "newline = [CHR 0x0A]"

definition createPrompt :: "(nat \<Rightarrow> string) \<Rightarrow> file \<Rightarrow> chunk \<Rightarrow> PRDetails \<Rightarrow> string" where
  \<open>createPrompt num_str file chunk prDetails =
     join newline
       [''Your task is to review pull requests. Instructions:'',
        ''- Do not give positive comments or compliments.'',
        ''- Provide comments and suggestions ONLY if there is something to improve, otherwise "reviews" should be an empty array.'',
        ''- Write the comment in GitHub Markdown format.'',
        ''- Use the given description only for the overall context and only comment the code.'',
        ''- IMPORTANT: NEVER suggest adding comments to the code.'',
        '''',
        ''Review the following code diff in the file "'' @ template_string (to file)
          @ ''" and take the pull request title and description into account when writing the response.'',
        ''  '',
        ''Pull request title: '' @ title prDetails,
        ''Pull request description:'',
        '''',
        ''---'',
        description prDetails,
        ''---'',
        '''',
        ''Git diff to review:'',
        '''',
        ''```diff'',
        chunk_content chunk,
        join newline (map (change_line num_str) (changes chunk)),
        ''```'',
        '''']\<close>

section \<open>getAIResponse\<close>

text \<open>
  The call \<^verbatim>\<open>openai.beta.chat.completions.parse\<close> either throws (a transport
  error, a timeout, a body that is not JSON or does not fit the zod schema) or returns
  a response. The body of the \<^verbatim>\<open>try\<close> block is \<open>getAIResponse_try\<close>: it reads
  \<^verbatim>\<open>response.choices[0].message\<close>, which throws a TypeError when there is no first
  choice, and returns \<^verbatim>\<open>response.choices[0].message?.parsed?.reviews || null\<close>.
  The \<^verbatim>\<open>catch\<close> block logs and returns \<^verbatim>\<open>null\<close>. What the client throws is an
  Error object, of type \<open>'e\<close> here; the \<^verbatim>\<open>catch\<close> block reads its
  \<^verbatim>\<open>constructor.name\<close>, \<^verbatim>\<open>message\<close>, \<^verbatim>\<open>response\<close> and \<^verbatim>\<open>stack\<close> for the log
  only.
\<close>

datatype parsed = Parsed (reviews: "finding list option")
datatype message = Message (parsed: "parsed option")
datatype choice = Choice (message: "message option")
datatype response = Response (choices: "choice list")

datatype 'e thrown = TypeError | Rejected 'e

datatype 'e outcome = Throws 'e | Returns response

definition getAIResponse_try :: "'e outcome \<Rightarrow> 'e thrown + finding list option" where
  "getAIResponse_try result =
     (case result of
        Throws e \<Rightarrow> Inl (Rejected e)
      | Returns response \<Rightarrow>
          (case choices response of
             [] \<Rightarrow> Inl TypeError
           | first # _ \<Rightarrow>
               Inr (case message first of
                      None \<Rightarrow> None
                    | Some m \<Rightarrow>
                        (case parsed m of
                           None \<Rightarrow> None
                         | Some p \<Rightarrow> (case reviews p of None \<Rightarrow> None | Some rs \<Rightarrow> Some rs)))))"

definition getAIResponse :: "'e outcome \<Rightarrow> finding list option" where
  "getAIResponse result =
     (case getAIResponse_try result of Inl error \<Rightarrow> None | Inr found \<Rightarrow> found)"

section \<open>analyzeCode\<close>

text \<open>
  The model is asked once per chunk. \<open>ask n prompt\<close> is what the client does on the
  request with this prompt when \<open>n\<close> requests were made before it. The result of
  \<open>analyzeCode\<close> is the \<^verbatim>\<open>comments\<close> array together with the prompts that were
  sent, in order.
\<close>

record analysis =
  comments :: "comment list"
  requests :: "string list"

fun chunk_loop ::
  "(nat \<Rightarrow> string) \<Rightarrow> (nat \<Rightarrow> string \<Rightarrow> 'e outcome) \<Rightarrow> PRDetails \<Rightarrow> file \<Rightarrow> chunk list
     \<Rightarrow> analysis \<Rightarrow> analysis" where
  "chunk_loop num_str ask prDetails file [] acc = acc"
| "chunk_loop num_str ask prDetails file (chunk # rest) acc =
     (let prompt = createPrompt num_str file chunk prDetails;
          aiResponse = getAIResponse (ask (length (requests acc)) prompt);
          sent = requests acc @ [prompt]
      in chunk_loop num_str ask prDetails file rest
           (case aiResponse of
              None \<Rightarrow> acc\<lparr>requests := sent\<rparr>
            | Some rs \<Rightarrow>
                acc\<lparr>comments := comments acc @ createComment file chunk rs, requests := sent\<rparr>))"

fun file_loop ::
  "(nat \<Rightarrow> string) \<Rightarrow> (nat \<Rightarrow> string \<Rightarrow> 'e outcome) \<Rightarrow> PRDetails \<Rightarrow> file list
     \<Rightarrow> analysis \<Rightarrow> analysis" where
  "file_loop num_str ask prDetails [] acc = acc"
| "file_loop num_str ask prDetails (file # rest) acc =
     (if to file = Some ''/dev/null'' then file_loop num_str ask prDetails rest acc
      else file_loop num_str ask prDetails rest
             (chunk_loop num_str ask prDetails file (chunks file) acc))"

definition analyzeCode ::
  "(nat \<Rightarrow> string) \<Rightarrow> (nat \<Rightarrow> string \<Rightarrow> 'e outcome) \<Rightarrow> file list \<Rightarrow> PRDetails \<Rightarrow> analysis" where
  "analyzeCode num_str ask parsedDiff prDetails =
     file_loop num_str ask prDetails parsedDiff \<lparr>comments = [], requests = []\<rparr>"

section \<open>The path filter\<close>

text \<open>
  The patterns are \<^verbatim>\<open>core.getInput("exclude").split(",").map((s) => s.trim())\<close>;
  a file is kept when \<^verbatim>\<open>minimatch(file.to ?? "", pattern)\<close> holds for none of them.
  The matcher is the minimatch package, a parameter here.
\<close>

fun split_comma :: "string \<Rightarrow> string list" where
  \<comment> \<open>\<^verbatim>\<open>s.split(",")\<close>\<close>
  "split_comma [] = [[]]"
| "split_comma (c # cs) =
     (if c = CHR '','' then [] # split_comma cs
      else (case split_comma cs of [] \<Rightarrow> [[c]] | w # ws \<Rightarrow> (c # w) # ws))"

definition excludePatterns :: "string \<Rightarrow> string list" where
  "excludePatterns input = map trim (split_comma input)"

definition filteredDiff :: "(string \<Rightarrow> string \<Rightarrow> bool) \<Rightarrow> string list \<Rightarrow> file list \<Rightarrow> file list" where
  "filteredDiff minimatch patterns parsedDiff =
     filter (\<lambda>file.
       \<not> list_ex (\<lambda>pattern. minimatch (case to file of None \<Rightarrow> [] | Some p \<Rightarrow> p) pattern) patterns)
       parsedDiff"

section \<open>main\<close>

text \<open>
  What \<^verbatim>\<open>main\<close> is given: the results of the calls it awaits and the packages it
  uses. \<open>getPRDetails_result\<close> is what \<^verbatim>\<open>getPRDetails()\<close> does (it reads the event
  file and fetches the pull request), \<open>eventData_result\<close> what reading and parsing the
  event file again does, \<open>pulls_get_diff\<close> and \<open>compareCommits\<close> the two ways of
  fetching a diff (the second already through \<^verbatim>\<open>String\<close>), \<open>createReview\<close> the
  submission; \<open>Inl\<close> is a rejected promise or a thrown error. \<open>parseDiff\<close> and
  \<open>minimatch\<close> are the packages of these names, \<open>exclude_input\<close> is
  \<^verbatim>\<open>core.getInput("exclude")\<close>.
\<close>

record event_data =
  action :: "string option"
  before :: "string option"
  after :: "string option"

record ('e, 'x) world =
  getPRDetails_result :: "'x + PRDetails"
  eventData_result :: "'x + event_data"
  pulls_get_diff :: "string \<Rightarrow> string \<Rightarrow> nat \<Rightarrow> 'x + string option"
  compareCommits :: "string \<Rightarrow> string \<Rightarrow> string option \<Rightarrow> string option \<Rightarrow> 'x + string"
  parseDiff :: "string \<Rightarrow> file list"
  exclude_input :: string
  minimatch :: "string \<Rightarrow> string \<Rightarrow> bool"
  number_toString :: "nat \<Rightarrow> string"
  completions_parse :: "nat \<Rightarrow> string \<Rightarrow> 'e outcome"
  createReview :: "string \<Rightarrow> string \<Rightarrow> nat \<Rightarrow> comment list \<Rightarrow> string \<Rightarrow> 'x + unit"

text \<open>
  The calls a run makes, in order, and the exit code of the process: 0 when
  \<^verbatim>\<open>main\<close> returns, 1 from \<^verbatim>\<open>process.exit(1)\<close> in its \<^verbatim>\<open>catch\<close> block.
\<close>

datatype effect =
    GetPRDetails
  | PullsGetDiff string string nat
  | CompareCommits string string "string option" "string option"
  | ChatCompletion string
  | CreateReview string string nat "comment list" string

record run =
  effects :: "effect list"
  exit_code :: nat

definition submit :: "('e, 'x) world \<Rightarrow> PRDetails \<Rightarrow> effect list \<Rightarrow> comment list \<Rightarrow> run" where
  \<comment> \<open>the end of \<^verbatim>\<open>main\<close>, from \<^verbatim>\<open>if (comments.length > 0)\<close>\<close>
  "submit w prDetails done cs =
     (if length cs > 0 then
        (let call = CreateReview (owner prDetails) (repo prDetails) (pull_number prDetails) cs ''COMMENT''
         in case createReview w (owner prDetails) (repo prDetails) (pull_number prDetails) cs ''COMMENT'' of
              Inl error \<Rightarrow> \<lparr>effects = done @ [call], exit_code = 1\<rparr>
            | Inr _ \<Rightarrow> \<lparr>effects = done @ [call], exit_code = 0\<rparr>)
      else \<lparr>effects = done, exit_code = 0\<rparr>)"

definition review :: "('e, 'x) world \<Rightarrow> PRDetails \<Rightarrow> effect list \<Rightarrow> string option \<Rightarrow> run" where
  \<comment> \<open>\<^verbatim>\<open>main\<close> from \<^verbatim>\<open>if (!diff)\<close>\<close>
  "review w prDetails done diff =
     (case diff of
        None \<Rightarrow> \<lparr>effects = done, exit_code = 0\<rparr>
      | Some text \<Rightarrow>
          if text = [] then \<lparr>effects = done, exit_code = 0\<rparr>
          else
            let parsedDiff = parseDiff w text;
                filtered = filteredDiff (minimatch w) (excludePatterns (exclude_input w)) parsedDiff;
                result = analyzeCode (number_toString w) (completions_parse w) filtered prDetails
            in submit w prDetails (done @ map ChatCompletion (requests result)) (comments result))"

definition main :: "('e, 'x) world \<Rightarrow> run" where
  "main w =
     (case getPRDetails_result w of
        Inl error \<Rightarrow> \<lparr>effects = [GetPRDetails], exit_code = 1\<rparr>
      | Inr prDetails \<Rightarrow>
          (case eventData_result w of
             Inl error \<Rightarrow> \<lparr>effects = [GetPRDetails], exit_code = 1\<rparr>
           | Inr eventData \<Rightarrow>
               if action eventData = Some ''opened'' then
                 (let call = PullsGetDiff (owner prDetails) (repo prDetails) (pull_number prDetails)
                  in case pulls_get_diff w (owner prDetails) (repo prDetails) (pull_number prDetails) of
                       Inl error \<Rightarrow> \<lparr>effects = [GetPRDetails, call], exit_code = 1\<rparr>
                     | Inr diff \<Rightarrow> review w prDetails [GetPRDetails, call] diff)
               else if action eventData = Some ''synchronize'' then
                 (let call = CompareCommits (owner prDetails) (repo prDetails)
                               (before eventData) (after eventData)
                  in case compareCommits w (owner prDetails) (repo prDetails)
                            (before eventData) (after eventData) of
                       Inl error \<Rightarrow> \<lparr>effects = [GetPRDetails, call], exit_code = 1\<rparr>
                     | Inr diff \<Rightarrow> review w prDetails [GetPRDetails, call] (Some diff))
               else \<lparr>effects = [GetPRDetails], exit_code = 0\<rparr>))"

section \<open>Notions used in the statements\<close>

text \<open>
  The work list of \<^verbatim>\<open>analyzeCode\<close>: the (file, chunk) pairs in the order of the two
  nested loops, the files whose \<^verbatim>\<open>to\<close> is \<^verbatim>\<open>/dev/null\<close> left out; the prompt of
  a pair; and what the \<open>n\<close>-th request adds to \<^verbatim>\<open>comments\<close>.
\<close>

definition jobs :: "file list \<Rightarrow> (file \<times> chunk) list" where
  "jobs parsedDiff =
     concat (map (\<lambda>file. map (Pair file) (chunks file))
                 (filter (\<lambda>file. to file \<noteq> Some ''/dev/null'') parsedDiff))"

definition prompt_of :: "(nat \<Rightarrow> string) \<Rightarrow> PRDetails \<Rightarrow> file \<times> chunk \<Rightarrow> string" where
  "prompt_of num_str prDetails job = createPrompt num_str (fst job) (snd job) prDetails"

definition contribution ::
  "(nat \<Rightarrow> string) \<Rightarrow> (nat \<Rightarrow> string \<Rightarrow> 'e outcome) \<Rightarrow> PRDetails \<Rightarrow> nat \<times> file \<times> chunk
     \<Rightarrow> comment list" where
  "contribution num_str ask prDetails numbered =
     (case getAIResponse (ask (fst numbered) (prompt_of num_str prDetails (snd numbered))) of
        None \<Rightarrow> []
      | Some rs \<Rightarrow> createComment (fst (snd numbered)) (snd (snd numbered)) rs)"





text \<open>A number that is an integer and not negative.\<close>

definition nonneg_integer :: "jsnum \<Rightarrow> bool" where
  "nonneg_integer v =
     (case v of Num q \<Rightarrow> 0 \<le> q \<and> q = of_int \<lfloor>q\<rfloor> | NegZero \<Rightarrow> True | _ \<Rightarrow> False)"

definition is_CreateReview :: "effect \<Rightarrow> bool" where
  "is_CreateReview e = (case e of CreateReview _ _ _ _ _ \<Rightarrow> True | _ \<Rightarrow> False)"

definition is_diff_fetch :: "effect \<Rightarrow> bool" where
  "is_diff_fetch e =
     (case e of PullsGetDiff _ _ _ \<Rightarrow> True | CompareCommits _ _ _ _ \<Rightarrow> True | _ \<Rightarrow> False)"

section \<open>Concrete inputs\<close>

text \<open>
  Stand-ins for the packages on concrete inputs: decimal digits for
  \<^verbatim>\<open>Number::toString\<close> (what it prints for an integer below \<open>10 ^ 21\<close>), and a matcher
  that knows literal characters and \<^verbatim>\<open>*\<close>, any run of characters other than \<^verbatim>\<open>/\<close>;
  as in minimatch, the empty pattern matches the empty path and no other.
\<close>

fun decimal :: "nat \<Rightarrow> string" where
  "decimal n =
     (if n < 10 then [char_of (48 + n)] else decimal (n div 10) @ [char_of (48 + n mod 10)])"

declare decimal.simps [simp del]

fun star_glob :: "string \<Rightarrow> string \<Rightarrow> bool" where
  "star_glob [] [] = True"
| "star_glob (c # cs) [] = False"
| "star_glob [] (p # ps) = (p = CHR ''*'' \<and> star_glob [] ps)"
| "star_glob (c # cs) (p # ps) =
     (if p = CHR ''*'' then (if star_glob (c # cs) ps then True else c \<noteq> CHR ''/'' \<and> star_glob cs (p # ps))
      else p = c \<and> star_glob cs ps)"

definition example_pr :: PRDetails where
  "example_pr = \<lparr>owner = ''octo'', repo = ''demo'', pull_number = 7, title = ''Add a'', description = ''First''\<rparr>"

definition a_ts :: "file" where
  "a_ts = \<lparr>to = Some ''a.ts'',
           chunks = [\<lparr>chunk_content = ''@@ -1,2 +1,3 @@'',
                      changes = [NormalChange '' let x'' 1 1, DeleteChange ''-x = 1'' 2,
                                 AddChange ''+x = 2'' 2, AddChange ''+x = 3'' 3]\<rparr>,
                     \<lparr>chunk_content = ''@@ -9 +10 @@'', changes = [AddChange ''+y'' 10]\<rparr>]\<rparr>"

definition readme_md :: "file" where
  "readme_md = \<lparr>to = Some ''README.md'',
                chunks = [\<lparr>chunk_content = ''@@ -1 +1 @@'', changes = [AddChange ''+doc'' 1]\<rparr>]\<rparr>"

definition gone_ts :: "file" where
  "gone_ts = \<lparr>to = Some ''/dev/null'',
              chunks = [\<lparr>chunk_content = ''@@ -1 +0,0 @@'', changes = [DeleteChange ''-z'' 1]\<rparr>]\<rparr>"

definition example_ask :: "nat \<Rightarrow> string \<Rightarrow> unit outcome" where
  \<comment> \<open>the first request fails, every later one finds two things\<close>
  "example_ask n prompt =
     (if n = 0 then Throws ()
      else Returns (Response [Choice (Some (Message (Some (Parsed (Some
             [\<lparr>lineNumber = ''2'', reviewComment = ''avoid mutable state''\<rparr>,
              \<lparr>lineNumber = ''abc'', reviewComment = ''rename''\<rparr>])))))]))"

definition example_world :: "string option \<Rightarrow> (unit, unit) world" where
  "example_world act =
     \<lparr>getPRDetails_result = Inr example_pr,
      eventData_result = Inr \<lparr>action = act, before = Some ''1f'', after = Some ''2e''\<rparr>,
      pulls_get_diff = (\<lambda>_ _ _. Inr (Some ''diff --git'')),
      compareCommits = (\<lambda>_ _ _ _. Inr ''diff --git''),
      parseDiff = (\<lambda>_. [readme_md, gone_ts, a_ts]),
      exclude_input = '' *.md, *.lock'',
      minimatch = star_glob,
      number_toString = decimal,
      completions_parse = example_ask,
      createReview = (\<lambda>_ _ _ _ _. Inr ())\<rparr>"

section \<open>Numbers written in decimal digits\<close>

lemma bit_length_bounds:
  "0 < n \<Longrightarrow> 2 ^ (bit_length n - 1) \<le> n \<and> n < 2 ^ bit_length n"
proof (induction n rule: bit_length.induct)
  case (1 n)
  show ?case
  proof (cases "n div 2 = 0")
    case True
    with "1.prems" have "n = 1" by presburger
    then show ?thesis by (simp add: bit_length.simps)
  next
    case False
    then have pos: "0 < n div 2" by simp
    from "1.IH" [OF _ pos] "1.prems"
    have ih: "2 ^ (bit_length (n div 2) - 1) \<le> n div 2" "n div 2 < 2 ^ bit_length (n div 2)"
      by auto
    have bl: "bit_length n = Suc (bit_length (n div 2))"
      using "1.prems" by (subst bit_length.simps) simp
    have "0 < bit_length (n div 2)"
      using pos by (subst bit_length.simps) simp
    then obtain k where k: "bit_length (n div 2) = Suc k" by (cases "bit_length (n div 2)") auto
    from ih k have "2 * 2 ^ k \<le> n" "n < 2 * 2 ^ Suc k" by auto
    with bl k show ?thesis by simp
  qed
qed

lemma bit_length_pos: "0 < n \<Longrightarrow> 0 < bit_length n"
  by (subst bit_length.simps) simp

lemma bit_length_one: "bit_length (Suc 0) = Suc 0"
  by (simp add: bit_length.simps)

lemma floor_log2_of_nat:
  assumes "0 < n"
  shows "floor_log2 (of_nat n) = int (bit_length n) - 1"
proof -
  have q: "quotient_of (of_nat n :: rat) = (int n, 1)"
    using quotient_of_int [of "int n"] by simp
  from bit_length_bounds [OF assms] have "2 ^ (bit_length n - 1) \<le> n" by simp
  then have "(of_nat (2 ^ (bit_length n - 1)) :: rat) \<le> of_nat n"
    by (simp only: of_nat_le_iff)
  then have le: "(2 :: rat) ^ (bit_length n - 1) \<le> of_nat n" by simp
  have nat: "nat (int (bit_length n) - 1) = bit_length n - 1" by simp
  from bit_length_pos [OF assms] have nonneg: "0 \<le> int (bit_length n) - 1" by simp
  show ?thesis
    using le nonneg by (simp add: floor_log2_def q bit_length_one pow2_def nat)
qed

lemma round_half_even_of_int: "round_half_even (of_int z) = z"
  by (simp add: round_half_even_def)

lemma to_double_of_nat:
  assumes "n \<le> 2 ^ 53"
  shows "to_double (of_nat n) = Num (of_nat n)"
proof (cases "n = 0")
  case True
  then show ?thesis by (simp add: to_double_def)
next
  case False
  then have pos: "0 < n" by simp
  define e where "e = int (bit_length n) - 1"
  have fl: "floor_log2 (of_nat n) = e" by (simp add: e_def floor_log2_of_nat [OF pos])
  have e0: "0 \<le> e" using bit_length_pos [OF pos] by (simp add: e_def)
  have small: "(of_nat n :: rat) < pow2 1024"
  proof -
    have "n < 2 ^ 1024" using assms by (rule le_less_trans) simp
    then have "(of_nat n :: rat) < of_nat (2 ^ 1024)" by (simp only: of_nat_less_iff)
    then show ?thesis by (simp add: pow2_def)
  qed
  have nz: "(of_nat n :: rat) \<noteq> 0" using pos by simp
  show ?thesis
  proof (cases "e \<le> 52")
    case True
    define j where "j = nat (52 - e)"
    have p: "max (e - 52) (- 1074) = - int j" using True e0 by (simp add: j_def)
    have m: "round_half_even (of_nat n * pow2 (int j)) = int n * 2 ^ j"
    proof -
      have "(of_nat n :: rat) * pow2 (int j) = of_int (int n * 2 ^ j)"
        by (simp add: pow2_def)
      then show ?thesis by (simp only: round_half_even_of_int)
    qed
    have r: "(of_int (int n * 2 ^ j) :: rat) * pow2 (- int j) = of_nat n"
      by (cases "j = 0") (simp_all add: pow2_def)
    have "to_double (of_nat n) =
            (let m = round_half_even (of_nat n * pow2 (int j)); r = of_int m * pow2 (- int j)
             in if pow2 1024 \<le> r then PosInf else Num r)"
      using nz by (simp add: to_double_def fl p Let_def)
    also have "\<dots> = (if pow2 1024 \<le> (of_nat n :: rat) then PosInf else Num (of_nat n))"
      by (simp only: m r Let_def)
    finally show ?thesis using small by simp
  next
    case False
    have "n < 2 ^ bit_length n" using bit_length_bounds [OF pos] by simp
    from bit_length_bounds [OF pos] have lo: "2 ^ (bit_length n - 1) \<le> n" by simp
    from False have "53 \<le> bit_length n - 1" by (simp add: e_def)
    then have "(2::nat) ^ 53 \<le> 2 ^ (bit_length n - 1)"
      by (intro power_increasing) simp_all
    with lo assms have n: "n = 2 ^ 53" by simp
    have "bit_length n - 1 \<le> 53"
    proof (rule ccontr)
      assume "\<not> bit_length n - 1 \<le> 53"
      then have "54 \<le> bit_length n - 1" by simp
      then have "(2::nat) ^ 54 \<le> 2 ^ (bit_length n - 1)" by (intro power_increasing) simp_all
      with lo n show False by simp
    qed
    with \<open>53 \<le> bit_length n - 1\<close> have e: "e = 53" by (simp add: e_def)
    have m: "round_half_even ((of_nat n :: rat) * pow2 (- 1)) = 2 ^ 52"
    proof -
      have "(of_nat n :: rat) * pow2 (- 1) = of_int (2 ^ 52)" by (simp add: n pow2_def)
      then show ?thesis by (simp only: round_half_even_of_int)
    qed
    have r: "(of_int (2 ^ 52) :: rat) * pow2 1 = of_nat n" by (simp add: n pow2_def)
    have "to_double (of_nat n) =
            (let m = round_half_even (of_nat n * pow2 (- 1)); r = of_int m * pow2 1
             in if pow2 1024 \<le> r then PosInf else Num r)"
      using nz by (simp add: to_double_def fl e Let_def)
    also have "\<dots> = (if pow2 1024 \<le> (of_nat n :: rat) then PosInf else Num (of_nat n))"
      by (simp only: m r Let_def)
    finally show ?thesis using small by simp
  qed
qed

lemma decimal_digit_char:
  assumes "is_digit 10 c"
  shows "\<not> is_white_space c" "c \<noteq> CHR ''+''" "c \<noteq> CHR ''-''" "c \<noteq> CHR ''I''" "c \<noteq> CHR ''.''"
  using assms
  by (auto simp: is_digit_def digit_of_def is_white_space_def Let_def split: if_splits)

lemma trim_digits:
  assumes "all_digits 10 s"
  shows "trim s = s"
proof -
  from assms have ne: "s \<noteq> []" and all: "\<forall>c\<in>set s. is_digit 10 c"
    by (simp_all add: all_digits_def list_all_iff)
  from ne all have "\<not> is_white_space (hd s)" by (simp add: decimal_digit_char)
  then have front: "dropWhile is_white_space s = s" using ne by (cases s) simp_all
  from ne all have "\<not> is_white_space (last s)" by (simp add: decimal_digit_char)
  then have "\<not> is_white_space (hd (rev s))" using ne by (simp add: hd_rev)
  then have rear: "dropWhile is_white_space (rev s) = rev s" using ne by (cases "rev s") simp_all
  show ?thesis by (simp add: trim_def front rear)
qed

lemma StrDecimalLiteral_digits:
  assumes "all_digits 10 s"
  shows "StrDecimalLiteral s = Some (to_double (of_nat (digits_value 10 s)))"
proof -
  from assms have ne: "s \<noteq> []" and all: "\<forall>c\<in>set s. is_digit 10 c"
    by (simp_all add: all_digits_def list_all_iff)
  from ne obtain c r where s: "s = c # r" by (cases s) auto
  with all have c: "is_digit 10 c" by simp
  have tw: "takeWhile (is_digit 10) s = s" using all by simp
  have dw: "dropWhile (is_digit 10) s = []" using all by simp
  have inf: "s \<noteq> ''Infinity''" using s decimal_digit_char(4) [OF c] by auto
  have "StrUnsignedDecimalLiteral s = Some (to_double (of_nat (digits_value 10 s)))"
    using ne inf by (simp add: StrUnsignedDecimalLiteral_def tw dw ExponentPart_opt_def pow10_def)
  then show ?thesis
    using decimal_digit_char(2,3) [OF c] by (simp add: StrDecimalLiteral_def s)
qed

lemma Number_digits:
  assumes "all_digits 10 s"
  shows "Number s = to_double (of_nat (digits_value 10 s))"
proof -
  from assms have "s \<noteq> []" by (simp add: all_digits_def)
  then show ?thesis
    by (simp add: Number_def trim_digits [OF assms] StrDecimalLiteral_digits [OF assms])
qed

lemma Number_line_index:
  assumes "all_digits 10 s" and "digits_value 10 s \<le> 2 ^ 53"
  shows "Number s = Num (of_nat (digits_value 10 s))"
  by (simp only: Number_digits [OF assms(1)] to_double_of_nat [OF assms(2)])

section \<open>The two loops of analyzeCode\<close>

lemma chunk_loop_eq:
  "chunk_loop num_str ask prDetails file cs acc =
     \<lparr>comments = comments acc
        @ concat (map (contribution num_str ask prDetails)
                      (enumerate (length (requests acc)) (map (Pair file) cs))),
      requests = requests acc @ map (prompt_of num_str prDetails) (map (Pair file) cs)\<rparr>"
proof (induction cs arbitrary: acc)
  case Nil
  then show ?case by simp
next
  case (Cons c cs)
  show ?case
    by (cases "getAIResponse (ask (length (requests acc)) (createPrompt num_str file c prDetails))")
       (simp_all add: Cons.IH Let_def contribution_def prompt_of_def)
qed

lemma file_loop_eq:
  "file_loop num_str ask prDetails files acc =
     \<lparr>comments = comments acc
        @ concat (map (contribution num_str ask prDetails)
                      (enumerate (length (requests acc)) (jobs files))),
      requests = requests acc @ map (prompt_of num_str prDetails) (jobs files)\<rparr>"
proof (induction files arbitrary: acc)
  case Nil
  then show ?case by (simp add: jobs_def)
next
  case (Cons f files)
  show ?case
  proof (cases "to f = Some ''/dev/null''")
    case True
    then show ?thesis by (simp add: Cons.IH jobs_def)
  next
    case False
    have j: "jobs (f # files) = map (Pair f) (chunks f) @ jobs files"
      using False by (simp add: jobs_def)
    show ?thesis
      using False
      by (simp add: Cons.IH chunk_loop_eq j enumerate_append_eq add.commute)
  qed
qed

lemma analyzeCode_eq:
  "analyzeCode num_str ask parsedDiff prDetails =
     \<lparr>comments = concat (map (contribution num_str ask prDetails) (enumerate 0 (jobs parsedDiff))),
      requests = map (prompt_of num_str prDetails) (jobs parsedDiff)\<rparr>"
  by (simp add: analyzeCode_def file_loop_eq)

lemma jobs_append: "jobs (xs @ ys) = jobs xs @ jobs ys"
  by (simp add: jobs_def)

lemma filteredDiff_append:
  "filteredDiff mm pats (xs @ ys) = filteredDiff mm pats xs @ filteredDiff mm pats ys"
  by (simp add: filteredDiff_def)

lemma jobs_filteredDiff_deleted:
  assumes "to f = Some ''/dev/null''"
  shows "jobs (filteredDiff mm pats (xs @ f # ys)) = jobs (filteredDiff mm pats (xs @ ys))"
proof -
  have "jobs (filteredDiff mm pats [f]) = []"
    using assms by (simp add: filteredDiff_def jobs_def)
  then show ?thesis
    using filteredDiff_append [of mm pats xs "[f] @ ys"] filteredDiff_append [of mm pats "[f]" ys]
    by (simp add: jobs_append filteredDiff_append)
qed

lemma concat_map_skip:
  assumes "k < length xs" and "g (xs ! k) = []"
  shows "concat (map g xs) = concat (map g (take k xs)) @ concat (map g (drop (Suc k) xs))"
proof -
  have "xs = take k xs @ xs ! k # drop (Suc k) xs"
    using assms(1) by (simp add: id_take_nth_drop)
  then have "concat (map g xs) = concat (map g (take k xs @ xs ! k # drop (Suc k) xs))"
    by simp
  also have "\<dots> = concat (map g (take k xs)) @ concat (map g (drop (Suc k) xs))"
    using assms(2) by simp
  finally show ?thesis .
qed

section \<open>The calls of main\<close>

lemma submit_effects:
  "effects (submit w prDetails done cs) =
     done @ (if cs = [] then []
             else [CreateReview (owner prDetails) (repo prDetails) (pull_number prDetails) cs ''COMMENT''])"
  by (simp add: submit_def Let_def split: sum.splits)

lemma submit_exit_code:
  "exit_code (submit w prDetails done cs) =
     (if cs = [] then 0
      else case createReview w (owner prDetails) (repo prDetails) (pull_number prDetails) cs ''COMMENT'' of
             Inl error \<Rightarrow> 1 | Inr _ \<Rightarrow> 0)"
  by (simp add: submit_def Let_def split: sum.splits)

lemma review_effects:
  "effects (review w prDetails done (Some text)) =
     (if text = [] then done
      else let result = analyzeCode (number_toString w) (completions_parse w)
                          (filteredDiff (minimatch w) (excludePatterns (exclude_input w)) (parseDiff w text))
                          prDetails
           in done @ map ChatCompletion (requests result)
              @ (if comments result = [] then []
                 else [CreateReview (owner prDetails) (repo prDetails) (pull_number prDetails)
                         (comments result) ''COMMENT'']))"
  by (simp add: review_def submit_effects Let_def)

lemma review_effects_None: "effects (review w prDetails done None) = done"
  by (simp add: review_def)

lemma no_review_in_requests: "filter is_CreateReview (map ChatCompletion ps) = []"
  by (induction ps) (simp_all add: is_CreateReview_def)

lemma no_fetch_in_requests: "filter is_diff_fetch (map ChatCompletion ps) = []"
  by (induction ps) (simp_all add: is_diff_fetch_def)

lemma review_reviews:
  "length (filter is_CreateReview (effects (review w prDetails done diff)))
     \<le> length (filter is_CreateReview done) + 1"
  by (cases diff) (simp_all add: review_effects review_effects_None no_review_in_requests Let_def)

lemma review_fetches:
  "filter is_diff_fetch (effects (review w prDetails done diff)) = filter is_diff_fetch done"
  by (cases diff)
     (simp_all add: review_effects review_effects_None no_fetch_in_requests Let_def is_diff_fetch_def)

lemma main_reviews: "length (filter is_CreateReview (effects (main w))) \<le> 1"
proof (cases "getPRDetails_result w")
  case (Inl e)
  then show ?thesis by (simp add: main_def is_CreateReview_def)
next
  case pr: (Inr prDetails)
  show ?thesis
  proof (cases "eventData_result w")
    case (Inl e)
    with pr show ?thesis by (simp add: main_def is_CreateReview_def)
  next
    case ev: (Inr eventData)
    consider (opened) "action eventData = Some ''opened''"
      | (synchronize) "action eventData = Some ''synchronize''"
      | (other) "action eventData \<noteq> Some ''opened''" "action eventData \<noteq> Some ''synchronize''"
      by blast
    then show ?thesis
    proof cases
      case opened
      show ?thesis
      proof (cases "pulls_get_diff w (owner prDetails) (repo prDetails) (pull_number prDetails)")
        case (Inl e)
        with pr ev opened show ?thesis by (simp add: main_def is_CreateReview_def)
      next
        case (Inr diff)
        with pr ev opened
        have "main w = review w prDetails
                [GetPRDetails, PullsGetDiff (owner prDetails) (repo prDetails) (pull_number prDetails)] diff"
          by (simp add: main_def)
        then show ?thesis
          using review_reviews [of w prDetails
              "[GetPRDetails, PullsGetDiff (owner prDetails) (repo prDetails) (pull_number prDetails)]" diff]
          by (simp add: is_CreateReview_def)
      qed
    next
      case synchronize
      show ?thesis
      proof (cases "compareCommits w (owner prDetails) (repo prDetails) (before eventData) (after eventData)")
        case (Inl e)
        with pr ev synchronize show ?thesis by (simp add: main_def is_CreateReview_def)
      next
        case (Inr diff)
        with pr ev synchronize
        have "main w = review w prDetails
                [GetPRDetails, CompareCommits (owner prDetails) (repo prDetails)
                                 (before eventData) (after eventData)] (Some diff)"
          by (simp add: main_def)
        then show ?thesis
          using review_reviews [of w prDetails
              "[GetPRDetails, CompareCommits (owner prDetails) (repo prDetails)
                                (before eventData) (after eventData)]" "Some diff"]
          by (simp add: is_CreateReview_def)
      qed
    next
      case other
      with pr ev show ?thesis by (simp add: main_def is_CreateReview_def)
    qed
  qed
qed

lemma main_unsupported_effects:
  assumes "eventData_result w = Inr ev"
    and "action ev \<noteq> Some ''opened''" and "action ev \<noteq> Some ''synchronize''"
  shows "effects (main w) = [GetPRDetails]"
  using assms by (cases "getPRDetails_result w") (simp_all add: main_def)

lemma main_unsupported:
  assumes "getPRDetails_result w = Inr pr" and "eventData_result w = Inr ev"
    and "action ev \<noteq> Some ''opened''" and "action ev \<noteq> Some ''synchronize''"
  shows "main w = \<lparr>effects = [GetPRDetails], exit_code = 0\<rparr>"
  using assms by (simp add: main_def)

lemma main_opened:
  assumes "getPRDetails_result w = Inr pr" and "eventData_result w = Inr ev"
    and "action ev = Some ''opened''"
  shows "filter is_diff_fetch (effects (main w))
           = [PullsGetDiff (owner pr) (repo pr) (pull_number pr)]"
  using assms
  by (cases "pulls_get_diff w (owner pr) (repo pr) (pull_number pr)")
     (simp_all add: main_def review_fetches is_diff_fetch_def)

lemma main_synchronize:
  assumes "getPRDetails_result w = Inr pr" and "eventData_result w = Inr ev"
    and "action ev = Some ''synchronize''"
  shows "filter is_diff_fetch (effects (main w))
           = [CompareCommits (owner pr) (repo pr) (before ev) (after ev)]"
  using assms
  by (cases "compareCommits w (owner pr) (repo pr) (before ev) (after ev)")
     (simp_all add: main_def review_fetches is_diff_fetch_def)

lemma main_example_opened:
  "filter is_CreateReview (effects (main (example_world (Some ''opened''))))
     = [CreateReview ''octo'' ''demo'' 7
          [\<lparr>body = ''avoid mutable state'', path = ''a.ts'', line = Num 2\<rparr>,
           \<lparr>body = ''rename'', path = ''a.ts'', line = NaN\<rparr>] ''COMMENT'']"
  by code_simp

section \<open>Facts about the parts\<close>

lemma createComment_without_path:
  "to file = None \<or> to file = Some [] \<Longrightarrow> createComment file chunk aiResponses = []"
  by (auto simp: createComment_def falsy_string_def)

lemma createComment_with_path:
  "to file = Some p \<Longrightarrow> p \<noteq> [] \<Longrightarrow>
   createComment file chunk aiResponses =
     map (\<lambda>r. \<lparr>body = reviewComment r, path = p, line = Number (lineNumber r)\<rparr>) aiResponses"
  by (induction aiResponses) (simp_all add: createComment_def falsy_string_def)

lemma getAIResponse_Some_iff:
  "getAIResponse result = Some rs \<longleftrightarrow>
   (\<exists>rest. result = Returns (Response (Choice (Some (Message (Some (Parsed (Some rs))))) # rest)))"
proof (cases result)
  case (Throws e)
  then show ?thesis by (simp add: getAIResponse_def getAIResponse_try_def)
next
  case (Returns r)
  obtain cs where r: "r = Response cs" by (cases r)
  show ?thesis
  proof (cases cs)
    case Nil
    with Returns r show ?thesis by (simp add: getAIResponse_def getAIResponse_try_def)
  next
    case (Cons c rest)
    obtain mo where c: "c = Choice mo" by (cases c)
    show ?thesis
    proof (cases mo)
      case None
      with Returns r Cons c show ?thesis by (simp add: getAIResponse_def getAIResponse_try_def)
    next
      case (Some m)
      obtain po where m: "m = Message po" by (cases m)
      show ?thesis
      proof (cases po)
        case None
        with Returns r Cons c Some m show ?thesis
          by (simp add: getAIResponse_def getAIResponse_try_def)
      next
        case (Some p)
        obtain ro where p: "p = Parsed ro" by (cases p)
        from Returns r Cons c \<open>mo = Some m\<close> m Some p show ?thesis
          by (cases ro) (simp_all add: getAIResponse_def getAIResponse_try_def)
      qed
    qed
  qed
qed




lemma split_comma_not_empty: "split_comma s \<noteq> []"
  by (induction s) (simp_all split: list.splits)

lemma excludePatterns_not_empty: "excludePatterns input \<noteq> []"
  by (simp add: excludePatterns_def split_comma_not_empty)

lemma join_Cons_Cons: "join sep ((c # w) # ws) = c # join sep (w # ws)"
  by (cases ws) simp_all

lemma join_split_comma: "join '','' (split_comma s) = s"
proof (induction s)
  case Nil
  show ?case by simp
next
  case (Cons c cs)
  obtain w ws where sp: "split_comma cs = w # ws"
    using split_comma_not_empty [of cs] by (cases "split_comma cs") auto
  show ?case
  proof (cases "c = CHR '',''")
    case True
    then show ?thesis using Cons.IH by (simp add: sp)
  next
    case False
    then show ?thesis using Cons.IH by (simp add: sp join_Cons_Cons)
  qed
qed

lemma split_comma_no_comma: "part \<in> set (split_comma s) \<Longrightarrow> CHR '','' \<notin> set part"
proof (induction s arbitrary: part)
  case Nil
  then show ?case by simp
next
  case (Cons c cs)
  obtain w ws where sp: "split_comma cs = w # ws"
    using split_comma_not_empty [of cs] by (cases "split_comma cs") auto
  show ?case
  proof (cases "c = CHR '',''")
    case True
    with Cons.prems have "part = [] \<or> part \<in> set (split_comma cs)" by simp
    then show ?thesis using Cons.IH by auto
  next
    case False
    with Cons.prems sp have "part = c # w \<or> part \<in> set ws" by simp
    moreover have "CHR '','' \<notin> set w" using Cons.IH [of w] sp by simp
    moreover have "part \<in> set ws \<Longrightarrow> CHR '','' \<notin> set part" using Cons.IH [of part] sp by simp
    ultimately show ?thesis using False by auto
  qed
qed

lemma trim_decomposition:
  "\<exists>a b. s = a @ trim s @ b \<and> list_all is_white_space a \<and> list_all is_white_space b"
proof -
  define t where "t = dropWhile is_white_space s"
  have s: "s = takeWhile is_white_space s @ t" by (simp add: t_def)
  have "takeWhile is_white_space (rev t) @ dropWhile is_white_space (rev t) = rev t"
    by (rule takeWhile_dropWhile_id)
  then have "rev (takeWhile is_white_space (rev t) @ dropWhile is_white_space (rev t)) = rev (rev t)"
    by (rule arg_cong)
  then have "rev (dropWhile is_white_space (rev t)) @ rev (takeWhile is_white_space (rev t)) = t"
    by (simp only: rev_append rev_rev_ident)
  then have t: "t = trim s @ rev (takeWhile is_white_space (rev t))"
    by (simp only: trim_def t_def)
  have a: "list_all is_white_space (takeWhile is_white_space s)"
    by (simp add: list_all_iff) (meson set_takeWhileD)
  have b: "list_all is_white_space (rev (takeWhile is_white_space (rev t)))"
    by (simp add: list_all_iff) (meson set_takeWhileD)
  from s t have "s = takeWhile is_white_space s @ trim s @ rev (takeWhile is_white_space (rev t))"
    by simp
  with a b show ?thesis by blast
qed

lemma trim_edges:
  assumes "trim s \<noteq> []"
  shows "\<not> is_white_space (hd (trim s)) \<and> \<not> is_white_space (last (trim s))"
proof -
  define t where "t = dropWhile is_white_space s"
  define u where "u = dropWhile is_white_space (rev t)"
  have tr: "trim s = rev u" by (simp add: trim_def t_def u_def)
  with assms have u: "u \<noteq> []" by simp
  then have "\<not> is_white_space (hd u)" unfolding u_def by (rule hd_dropWhile)
  then have l: "\<not> is_white_space (last (trim s))" using u by (simp add: tr last_rev)
  have "rev t = takeWhile is_white_space (rev t) @ u" by (simp add: u_def)
  then have "last (rev t) = last u" using u by (metis last_appendR)
  moreover have t: "t \<noteq> []" using u by (auto simp: u_def)
  ultimately have "hd t = last u" by (simp add: last_rev)
  moreover have "\<not> is_white_space (hd t)" using t unfolding t_def by (rule hd_dropWhile)
  ultimately have "\<not> is_white_space (hd (trim s))" using u by (simp add: tr hd_rev)
  with l show ?thesis by simp
qed

lemma filteredDiff_filter:
  "filteredDiff mm patterns parsedDiff
     = filter (\<lambda>file. \<forall>pattern\<in>set patterns.
                 \<not> mm (case to file of None \<Rightarrow> [] | Some p \<Rightarrow> p) pattern) parsedDiff"
  by (simp add: filteredDiff_def list_ex_iff)

lemma excludePatterns_nothing: "excludePatterns [] = [[]]"
  by (simp add: excludePatterns_def trim_def)


section \<open>Evaluations on the concrete inputs\<close>

lemma Number_empty: "Number [] = Num 0"
  by code_simp

lemma Number_abc: "Number ''abc'' = NaN"
  by code_simp

lemma Number_2: "Number ''2'' = Num 2"
  by code_simp

lemma Number_samples:
  "Number ''-1'' = Num (- 1)" "Number ''1.5'' = Num (3 / 2)" "Number ''0x10'' = Num 16"
  by code_simp+

lemma nonneg_integer_samples:
  "\<not> nonneg_integer NaN" "\<not> nonneg_integer (Num (- 1))" "\<not> nonneg_integer (Num (3 / 2))"
  by code_simp+

lemma nonneg_integer_of_nat: "nonneg_integer (Num (of_nat n))"
  by (simp add: nonneg_integer_def)

lemma digits_12: "all_digits 10 ''12''" "digits_value 10 ''12'' = 12"
  by code_simp+


lemma star_glob_empty_pattern: "star_glob p [] = (p = [])"
  by (cases p) simp_all

lemma excludePatterns_example: "excludePatterns '' *.md, *.lock'' = [''*.md'', ''*.lock'']"
  by code_simp

lemma star_glob_examples:
  "star_glob ''README.md'' ''*.md''" "\<not> star_glob ''a.ts'' ''*.md''" "\<not> star_glob ''a.ts'' ''*.lock''"
  by code_simp+

lemma example_jobs: "jobs [gone_ts, a_ts] = map (Pair a_ts) (chunks a_ts)"
  by (simp add: jobs_def gone_ts_def a_ts_def)

lemma example_first_request: "getAIResponse (example_ask 0 prompt) = None"
  by (simp add: example_ask_def getAIResponse_def getAIResponse_try_def)

lemma example_second_request:
  "contribution decimal example_ask example_pr (Suc 0, a_ts, c)
     = [\<lparr>body = ''avoid mutable state'', path = ''a.ts'', line = Num 2\<rparr>,
        \<lparr>body = ''rename'', path = ''a.ts'', line = NaN\<rparr>]"
proof -
  have "to a_ts = Some ''a.ts''" "''a.ts'' \<noteq> []" by (simp_all add: a_ts_def)
  from createComment_with_path [OF this] show ?thesis
    by (simp add: contribution_def example_ask_def getAIResponse_def getAIResponse_try_def
          Number_2 Number_abc)
qed

section \<open>The claims\<close>

subsection \<open>C1\<close>

text \<open>
  C1, as stated, fails: \<^verbatim>\<open>line\<close> is \<^verbatim>\<open>Number(aiResponse.lineNumber)\<close>, which is NaN
  for \<^verbatim>\<open>"abc"\<close>, negative for \<^verbatim>\<open>"-1"\<close>, a fraction for \<^verbatim>\<open>"1.5"\<close>, and
  reads \<^verbatim>\<open>"0x10"\<close> in base 16.
\<close>

theorem createComment_line_counterexample:
  "map line (createComment a_ts \<lparr>chunk_content = [], changes = []\<rparr>
       [\<lparr>lineNumber = ''abc'', reviewComment = ''w''\<rparr>, \<lparr>lineNumber = ''-1'', reviewComment = ''x''\<rparr>,
        \<lparr>lineNumber = ''1.5'', reviewComment = ''y''\<rparr>, \<lparr>lineNumber = ''0x10'', reviewComment = ''z''\<rparr>])
     = [NaN, Num (- 1), Num (3 / 2), Num 16]
   \<and> \<not> nonneg_integer NaN \<and> \<not> nonneg_integer (Num (- 1)) \<and> \<not> nonneg_integer (Num (3 / 2))"
proof -
  have "to a_ts = Some ''a.ts''" "''a.ts'' \<noteq> []" by (simp_all add: a_ts_def)
  from createComment_with_path [OF this] show ?thesis
    by (simp add: Number_abc Number_samples nonneg_integer_samples)
qed

text \<open>
  C1 (amended): for a file with a path, the \<^verbatim>\<open>line\<close> of every record is
  \<^verbatim>\<open>Number(lineNumber)\<close> of its finding, one record per finding whatever the text; when
  the text is one or more decimal digits that denote a number up to \<open>2 ^ 53\<close>, the line
  is that number, a non-negative integer.
\<close>

theorem createComment_line_is_Number:
  assumes "to file = Some p" and "p \<noteq> []"
  shows "map line (createComment file chunk aiResponses) = map (\<lambda>r. Number (lineNumber r)) aiResponses
         \<and> (\<forall>r\<in>set aiResponses.
               all_digits 10 (lineNumber r) \<and> digits_value 10 (lineNumber r) \<le> 2 ^ 53 \<longrightarrow>
               Number (lineNumber r) = Num (of_nat (digits_value 10 (lineNumber r)))
               \<and> nonneg_integer (Number (lineNumber r)))"
proof -
  have "map line (createComment file chunk aiResponses) = map (\<lambda>r. Number (lineNumber r)) aiResponses"
    by (simp add: createComment_with_path [OF assms] comp_def)
  moreover have "Number s = Num (of_nat (digits_value 10 s)) \<and> nonneg_integer (Number s)"
    if "all_digits 10 s" and "digits_value 10 s \<le> 2 ^ 53" for s
    using Number_line_index [OF that] by (simp add: nonneg_integer_of_nat)
  ultimately show ?thesis by blast
qed

text \<open>
  The amended statement at the file \<^verbatim>\<open>a.ts\<close> and the findings \<^verbatim>\<open>"12"\<close> and \<^verbatim>\<open>"abc"\<close>.
\<close>

theorem createComment_line_is_Number_witness:
  "to a_ts = Some ''a.ts'' \<and> ''a.ts'' \<noteq> [] \<and> all_digits 10 ''12'' \<and> digits_value 10 ''12'' \<le> 2 ^ 53
   \<and> map line (createComment a_ts \<lparr>chunk_content = [], changes = []\<rparr>
         [\<lparr>lineNumber = ''12'', reviewComment = ''x''\<rparr>, \<lparr>lineNumber = ''abc'', reviewComment = ''y''\<rparr>])
       = [Num 12, NaN]
   \<and> nonneg_integer (Number ''12'')"
proof -
  have h: "to a_ts = Some ''a.ts''" "''a.ts'' \<noteq> []" by (simp_all add: a_ts_def)
  from createComment_line_is_Number [OF h, of "\<lparr>chunk_content = [], changes = []\<rparr>"
      "[\<lparr>lineNumber = ''12'', reviewComment = ''x''\<rparr>, \<lparr>lineNumber = ''abc'', reviewComment = ''y''\<rparr>]"]
  show ?thesis using h nonneg_integer_of_nat [of 12] by (simp add: digits_12 Number_abc)
qed

subsection \<open>C2\<close>

text \<open>
  C2, as stated, fails: \<^verbatim>\<open>createComment\<close> tests \<^verbatim>\<open>!file.to\<close>, and
  \<^verbatim>\<open>"/dev/null"\<close> is a non-empty string.
\<close>

theorem createComment_dev_null_counterexample:
  "createComment gone_ts \<lparr>chunk_content = [], changes = []\<rparr> [\<lparr>lineNumber = ''2'', reviewComment = ''x''\<rparr>]
     = [\<lparr>body = ''x'', path = ''/dev/null'', line = Num 2\<rparr>]"
proof -
  have "to gone_ts = Some ''/dev/null''" "''/dev/null'' \<noteq> []" by (simp_all add: gone_ts_def)
  from createComment_with_path [OF this] show ?thesis by (simp add: Number_2)
qed

text \<open>
  C2 (amended): when the file has no target path (\<^verbatim>\<open>to\<close> is undefined or the empty
  string), \<^verbatim>\<open>createComment\<close> returns no record, whatever the findings.
\<close>

theorem createComment_without_path_is_empty:
  "to file = None \<or> to file = Some [] \<Longrightarrow> createComment file chunk aiResponses = []"
  by (rule createComment_without_path)

text \<open>
  The amended statement at a file without \<^verbatim>\<open>to\<close>.
\<close>

theorem createComment_without_path_is_empty_witness:
  "to \<lparr>to = None, chunks = []\<rparr> = None
   \<and> createComment \<lparr>to = None, chunks = []\<rparr> \<lparr>chunk_content = [], changes = []\<rparr>
        [\<lparr>lineNumber = ''2'', reviewComment = ''x''\<rparr>] = []"
  using createComment_without_path_is_empty [of "\<lparr>to = None, chunks = []\<rparr>"
      "\<lparr>chunk_content = [], changes = []\<rparr>" "[\<lparr>lineNumber = ''2'', reviewComment = ''x''\<rparr>]"]
  by simp

subsection \<open>C3\<close>

text \<open>
  C3: a file whose \<^verbatim>\<open>to\<close> is \<^verbatim>\<open>/dev/null\<close> changes nothing in the analysis, whatever
  the exclusion patterns and the matcher: with it or without it in the parsed diff, the
  same prompts are sent, in the same order, and the same comments are collected.
\<close>

theorem deleted_file_is_skipped:
  assumes "to f = Some ''/dev/null''"
  shows "analyzeCode num_str ask (filteredDiff mm patterns (xs @ f # ys)) prDetails =
         analyzeCode num_str ask (filteredDiff mm patterns (xs @ ys)) prDetails"
  by (simp only: analyzeCode_eq jobs_filteredDiff_deleted [OF assms])

text \<open>
  The deleted file between \<^verbatim>\<open>README.md\<close> and \<^verbatim>\<open>a.ts\<close>, and the deleted file alone.
\<close>

theorem deleted_file_is_skipped_witness:
  "to gone_ts = Some ''/dev/null''
   \<and> analyzeCode decimal example_ask (filteredDiff star_glob [''*.md''] [readme_md, gone_ts, a_ts]) example_pr
     = analyzeCode decimal example_ask (filteredDiff star_glob [''*.md''] [readme_md, a_ts]) example_pr
   \<and> analyzeCode decimal example_ask (filteredDiff star_glob [] [gone_ts]) example_pr
     = \<lparr>comments = [], requests = []\<rparr>"
proof -
  have h: "to gone_ts = Some ''/dev/null''" by (simp add: gone_ts_def)
  from deleted_file_is_skipped [OF h, of decimal example_ask star_glob "[''*.md'']" "[readme_md]" "[a_ts]" example_pr]
    deleted_file_is_skipped [OF h, of decimal example_ask star_glob "[]" "[]" "[]" example_pr]
  show ?thesis using h by (simp add: filteredDiff_def analyzeCode_def)
qed

subsection \<open>C4\<close>

text \<open>
  C4, as stated, fails in its last part: the list of patterns is never empty. With
  nothing configured, \<^verbatim>\<open>"".split(",")\<close> is \<^verbatim>\<open>[""]\<close>, the one pattern is the empty
  string, and it matches the empty path that stands for a missing \<^verbatim>\<open>to\<close>: the file
  without \<^verbatim>\<open>to\<close> is removed.
\<close>

theorem filteredDiff_nothing_configured_counterexample:
  "excludePatterns [] = [[]]
   \<and> filteredDiff star_glob (excludePatterns []) [\<lparr>to = None, chunks = []\<rparr>, a_ts] = [a_ts]"
  by (simp add: excludePatterns_nothing filteredDiff_def a_ts_def)

text \<open>
  C4 (amended): the patterns are the parts of the configured text between its commas,
  each with the white space at its two ends removed, and there is always at least one.
  The path filter keeps, in order, exactly the files whose target path (the empty
  string when there is none) matches none of the patterns, so it removes exactly those
  that match at least one. With nothing configured the one pattern is the empty string,
  and a file is kept exactly when its path does not match it.
\<close>

theorem filteredDiff_removes_matching:
  "excludePatterns input = map trim (split_comma input)
   \<and> join '','' (split_comma input) = input
   \<and> (\<forall>part\<in>set (split_comma input). CHR '','' \<notin> set part)
   \<and> (\<forall>part\<in>set (split_comma input).
         \<exists>a b. part = a @ trim part @ b \<and> list_all is_white_space a \<and> list_all is_white_space b)
   \<and> (\<forall>pattern\<in>set (excludePatterns input).
         pattern = [] \<or> (\<not> is_white_space (hd pattern) \<and> \<not> is_white_space (last pattern)))
   \<and> excludePatterns input \<noteq> []
   \<and> filteredDiff mm (excludePatterns input) parsedDiff
     = filter (\<lambda>file. \<forall>pattern\<in>set (excludePatterns input).
                 \<not> mm (case to file of None \<Rightarrow> [] | Some p \<Rightarrow> p) pattern) parsedDiff
   \<and> (\<forall>file. file \<in> set parsedDiff
          \<and> (\<exists>pattern\<in>set (excludePatterns input). mm (case to file of None \<Rightarrow> [] | Some p \<Rightarrow> p) pattern)
         \<longrightarrow> file \<notin> set (filteredDiff mm (excludePatterns input) parsedDiff))
   \<and> (\<forall>file. file \<in> set parsedDiff
          \<and> (\<forall>pattern\<in>set (excludePatterns input). \<not> mm (case to file of None \<Rightarrow> [] | Some p \<Rightarrow> p) pattern)
         \<longrightarrow> file \<in> set (filteredDiff mm (excludePatterns input) parsedDiff))
   \<and> filteredDiff mm (excludePatterns []) parsedDiff
     = filter (\<lambda>file. \<not> mm (case to file of None \<Rightarrow> [] | Some p \<Rightarrow> p) []) parsedDiff"
proof -
  have "\<forall>part\<in>set (split_comma input). CHR '','' \<notin> set part"
    using split_comma_no_comma by blast
  moreover have "\<forall>part\<in>set (split_comma input).
         \<exists>a b. part = a @ trim part @ b \<and> list_all is_white_space a \<and> list_all is_white_space b"
    using trim_decomposition by blast
  moreover have "\<forall>pattern\<in>set (excludePatterns input).
         pattern = [] \<or> (\<not> is_white_space (hd pattern) \<and> \<not> is_white_space (last pattern))"
    using trim_edges by (auto simp: excludePatterns_def)
  moreover have "filteredDiff mm (excludePatterns []) parsedDiff
     = filter (\<lambda>file. \<not> mm (case to file of None \<Rightarrow> [] | Some p \<Rightarrow> p) []) parsedDiff"
    by (simp add: filteredDiff_filter excludePatterns_nothing)
  ultimately show ?thesis
    by (simp add: filteredDiff_filter excludePatterns_not_empty join_split_comma)
       (simp add: excludePatterns_def)
qed

text \<open>
  \<^verbatim>\<open>README.md\<close> matches \<^verbatim>\<open>*.md\<close> and is removed, \<^verbatim>\<open>a.ts\<close> is kept; with nothing
  configured both are kept.
\<close>

theorem filteredDiff_removes_matching_witness:
  "excludePatterns '' *.md, *.lock'' = [''*.md'', ''*.lock'']
   \<and> star_glob ''README.md'' ''*.md''
   \<and> filteredDiff star_glob (excludePatterns '' *.md, *.lock'') [readme_md, a_ts] = [a_ts]
   \<and> filteredDiff star_glob (excludePatterns []) [readme_md, a_ts] = [readme_md, a_ts]"
proof -
  have paths: "to readme_md = Some ''README.md''" "to a_ts = Some ''a.ts''"
    by (simp_all add: readme_md_def a_ts_def)
  from filteredDiff_removes_matching [of "'' *.md, *.lock''" star_glob "[readme_md, a_ts]"]
  show ?thesis
    by (simp add: excludePatterns_example excludePatterns_nothing star_glob_examples paths)
qed

subsection \<open>C5\<close>

text \<open>
  C5: whatever the client throws (a transport error, a timeout, a body that is not JSON
  or does not fit the schema), the \<^verbatim>\<open>try\<close> block of \<^verbatim>\<open>getAIResponse\<close> throws it
  and \<^verbatim>\<open>getAIResponse\<close> returns \<^verbatim>\<open>null\<close>; so it does when the \<^verbatim>\<open>try\<close> block
  itself throws on a response without choices, and when the message or its parsed
  content is missing. Only a returned response whose first choice has parsed reviews
  gives a result, which is those reviews; for \<^verbatim>\<open>{reviews: []}\<close> it is the empty
  sequence, and that is not \<^verbatim>\<open>null\<close>. Every result is a value: \<^verbatim>\<open>getAIResponse\<close> has
  no outcome in which the failure goes on to its caller.
\<close>

theorem getAIResponse_failure_is_null:
  "getAIResponse_try (Throws e) = Inl (Rejected e)
   \<and> getAIResponse (Throws e) = None
   \<and> getAIResponse_try (Returns (Response [])) = Inl TypeError
   \<and> getAIResponse (Returns (Response [])) = None
   \<and> getAIResponse (Returns (Response (Choice None # rest))) = None
   \<and> getAIResponse (Returns (Response (Choice (Some (Message None)) # rest))) = None
   \<and> getAIResponse (Returns (Response (Choice (Some (Message (Some (Parsed (Some []))))) # rest)))
       = Some []
   \<and> Some [] \<noteq> (None :: finding list option)
   \<and> (getAIResponse result = None \<or>
       (\<exists>rs rest. result = Returns (Response (Choice (Some (Message (Some (Parsed (Some rs))))) # rest))
                  \<and> getAIResponse result = Some rs))"
proof -
  have "getAIResponse result = None \<or>
       (\<exists>rs rest. result = Returns (Response (Choice (Some (Message (Some (Parsed (Some rs))))) # rest))
                  \<and> getAIResponse result = Some rs)"
  proof (cases "getAIResponse result")
    case None
    then show ?thesis by simp
  next
    case (Some rs)
    then show ?thesis using getAIResponse_Some_iff [of result rs] by blast
  qed
  then show ?thesis by (simp add: getAIResponse_def getAIResponse_try_def)
qed

subsection \<open>C6\<close>

text \<open>
  C6: when the request for one chunk gives \<^verbatim>\<open>null\<close>, \<^verbatim>\<open>analyzeCode\<close> still sends one
  prompt for every chunk of every file that is not deleted, and its comments are those
  of the chunks before it followed by those of the chunks after it.
\<close>

theorem null_chunk_contributes_nothing:
  assumes "k < length (jobs parsedDiff)"
    and "getAIResponse (ask k (prompt_of num_str prDetails (jobs parsedDiff ! k))) = None"
  shows "requests (analyzeCode num_str ask parsedDiff prDetails)
           = map (prompt_of num_str prDetails) (jobs parsedDiff)
         \<and> comments (analyzeCode num_str ask parsedDiff prDetails)
           = concat (map (contribution num_str ask prDetails) (take k (enumerate 0 (jobs parsedDiff))))
             @ concat (map (contribution num_str ask prDetails)
                           (drop (Suc k) (enumerate 0 (jobs parsedDiff))))"
proof -
  let ?js = "enumerate 0 (jobs parsedDiff)"
  have len: "k < length ?js" using assms(1) by simp
  have nth: "?js ! k = (k, jobs parsedDiff ! k)" using assms(1) by (simp add: nth_enumerate_eq)
  have "contribution num_str ask prDetails (?js ! k) = []"
    by (simp add: nth contribution_def assms(2))
  from concat_map_skip [of k ?js "contribution num_str ask prDetails", OF len this] show ?thesis
    by (simp add: analyzeCode_eq)
qed

text \<open>
  The first of the two chunks of \<^verbatim>\<open>a.ts\<close> gets \<^verbatim>\<open>null\<close>, the second two findings.
\<close>

theorem null_chunk_contributes_nothing_witness:
  "0 < length (jobs [gone_ts, a_ts])
   \<and> getAIResponse (example_ask 0 (prompt_of decimal example_pr (jobs [gone_ts, a_ts] ! 0))) = None
   \<and> length (requests (analyzeCode decimal example_ask [gone_ts, a_ts] example_pr)) = 2
   \<and> comments (analyzeCode decimal example_ask [gone_ts, a_ts] example_pr)
       = [\<lparr>body = ''avoid mutable state'', path = ''a.ts'', line = Num 2\<rparr>,
          \<lparr>body = ''rename'', path = ''a.ts'', line = NaN\<rparr>]"
proof -
  obtain c1 c2 where cs: "chunks a_ts = [c1, c2]" by (simp add: a_ts_def)
  have jb: "jobs [gone_ts, a_ts] = [(a_ts, c1), (a_ts, c2)]" by (simp add: example_jobs cs)
  then have len: "length (jobs [gone_ts, a_ts]) = 2" by simp
  then have h1: "0 < length (jobs [gone_ts, a_ts])" by simp
  have h2: "getAIResponse (example_ask 0 (prompt_of decimal example_pr (jobs [gone_ts, a_ts] ! 0))) = None"
    by (rule example_first_request)
  have js: "enumerate 0 (jobs [gone_ts, a_ts]) = [(0, a_ts, c1), (Suc 0, a_ts, c2)]"
    by (simp add: jb)
  note inst = null_chunk_contributes_nothing
                [where k = 0 and parsedDiff = "[gone_ts, a_ts]" and ask = example_ask
                   and num_str = decimal and prDetails = example_pr, OF h1 h2]
  from inst have "length (requests (analyzeCode decimal example_ask [gone_ts, a_ts] example_pr)) = 2"
    by (simp add: len)
  moreover from inst have "comments (analyzeCode decimal example_ask [gone_ts, a_ts] example_pr)
       = [\<lparr>body = ''avoid mutable state'', path = ''a.ts'', line = Num 2\<rparr>,
          \<lparr>body = ''rename'', path = ''a.ts'', line = NaN\<rparr>]"
    by (simp add: js example_second_request)
  ultimately show ?thesis using h1 h2 by blast
qed

subsection \<open>C7\<close>



subsection \<open>C8\<close>

text \<open>
  C8: the end of \<^verbatim>\<open>main\<close> makes one \<^verbatim>\<open>createReview\<close> call, with all the comments
  of the run and the event \<^verbatim>\<open>COMMENT\<close>, when there is a comment, and no call when there
  is none; the comments are those \<^verbatim>\<open>analyzeCode\<close> returned; and a whole run makes at most
  one such call.
\<close>

theorem review_submitted_once:
  "effects (submit w prDetails done cs) =
     done @ (if cs = [] then []
             else [CreateReview (owner prDetails) (repo prDetails) (pull_number prDetails) cs ''COMMENT''])
   \<and> effects (review w prDetails done (Some text)) =
     (if text = [] then done
      else let result = analyzeCode (number_toString w) (completions_parse w)
                          (filteredDiff (minimatch w) (excludePatterns (exclude_input w)) (parseDiff w text))
                          prDetails
           in done @ map ChatCompletion (requests result)
              @ (if comments result = [] then []
                 else [CreateReview (owner prDetails) (repo prDetails) (pull_number prDetails)
                         (comments result) ''COMMENT'']))
   \<and> length (filter is_CreateReview (effects (main w))) \<le> 1"
  by (simp only: submit_effects review_effects main_reviews simp_thms)

text \<open>
  One comment is submitted in one call, no comment in none, and the run on the example
  diff makes one call.
\<close>

theorem review_submitted_once_witness:
  "effects (submit (example_world (Some ''opened'')) example_pr [] [\<lparr>body = ''b'', path = ''a.ts'', line = Num 2\<rparr>])
     = [CreateReview ''octo'' ''demo'' 7 [\<lparr>body = ''b'', path = ''a.ts'', line = Num 2\<rparr>] ''COMMENT'']
   \<and> effects (submit (example_world (Some ''opened'')) example_pr [] []) = []
   \<and> length (filter is_CreateReview (effects (main (example_world (Some ''opened''))))) = 1"
proof -
  note inst = review_submitted_once [of "example_world (Some ''opened'')" example_pr "[]"]
  from inst [of "[\<lparr>body = ''b'', path = ''a.ts'', line = Num 2\<rparr>]"] inst [of "[]"]
  show ?thesis by (simp add: example_pr_def main_example_opened)
qed

subsection \<open>C9\<close>

text \<open>
  C9, as stated, fails: \<^verbatim>\<open>main\<close> awaits \<^verbatim>\<open>getPRDetails()\<close> before it looks at the
  action, so a run on a \<^verbatim>\<open>closed\<close> event whose pull request cannot be fetched ends in the
  \<^verbatim>\<open>catch\<close> block, with exit code 1.
\<close>

theorem unsupported_action_counterexample:
  "action \<lparr>action = Some ''closed'', before = Some ''1f'', after = Some ''2e''\<rparr> = Some ''closed''
   \<and> eventData_result ((example_world (Some ''closed''))\<lparr>getPRDetails_result := Inl ()\<rparr>)
       = Inr \<lparr>action = Some ''closed'', before = Some ''1f'', after = Some ''2e''\<rparr>
   \<and> exit_code (main ((example_world (Some ''closed''))\<lparr>getPRDetails_result := Inl ()\<rparr>)) = 1"
  by (simp add: main_def example_world_def)

text \<open>
  C9 (amended): when the event file is read and its action is neither \<^verbatim>\<open>opened\<close> nor
  \<^verbatim>\<open>synchronize\<close>, the run calls \<^verbatim>\<open>getPRDetails\<close> and nothing else: no diff is
  fetched, no prompt is sent, no review is submitted; and when \<^verbatim>\<open>getPRDetails\<close> succeeded,
  the run ends with exit code 0. When it succeeded and the action is \<^verbatim>\<open>opened\<close>, the one
  diff fetched is that of the pull request; when the action is \<^verbatim>\<open>synchronize\<close>, it is
  the comparison of \<^verbatim>\<open>before\<close> with \<^verbatim>\<open>after\<close>.
\<close>

theorem main_by_action:
  assumes "eventData_result w = Inr ev"
  shows "(action ev \<noteq> Some ''opened'' \<and> action ev \<noteq> Some ''synchronize'' \<longrightarrow>
            effects (main w) = [GetPRDetails]
            \<and> (\<forall>pr. getPRDetails_result w = Inr pr \<longrightarrow>
                  main w = \<lparr>effects = [GetPRDetails], exit_code = 0\<rparr>))
         \<and> (\<forall>pr. getPRDetails_result w = Inr pr \<and> action ev = Some ''opened'' \<longrightarrow>
               filter is_diff_fetch (effects (main w))
                 = [PullsGetDiff (owner pr) (repo pr) (pull_number pr)])
         \<and> (\<forall>pr. getPRDetails_result w = Inr pr \<and> action ev = Some ''synchronize'' \<longrightarrow>
               filter is_diff_fetch (effects (main w))
                 = [CompareCommits (owner pr) (repo pr) (before ev) (after ev)])"
  using main_unsupported_effects [OF assms] main_unsupported [OF _ assms]
    main_opened [OF _ assms] main_synchronize [OF _ assms]
  by blast

text \<open>
  The example run for the actions \<^verbatim>\<open>closed\<close>, \<^verbatim>\<open>opened\<close> and \<^verbatim>\<open>synchronize\<close>.
\<close>

theorem main_by_action_witness:
  "eventData_result (example_world (Some ''closed''))
     = Inr \<lparr>action = Some ''closed'', before = Some ''1f'', after = Some ''2e''\<rparr>
   \<and> getPRDetails_result (example_world (Some ''closed'')) = Inr example_pr
   \<and> main (example_world (Some ''closed'')) = \<lparr>effects = [GetPRDetails], exit_code = 0\<rparr>
   \<and> filter is_diff_fetch (effects (main (example_world (Some ''opened''))))
       = [PullsGetDiff ''octo'' ''demo'' 7]
   \<and> filter is_diff_fetch (effects (main (example_world (Some ''synchronize''))))
       = [CompareCommits ''octo'' ''demo'' (Some ''1f'') (Some ''2e'')]"
proof -
  have ev: "eventData_result (example_world act)
              = Inr \<lparr>action = act, before = Some ''1f'', after = Some ''2e''\<rparr>" for act
    by (simp add: example_world_def)
  have pr: "getPRDetails_result (example_world act) = Inr example_pr" for act
    by (simp add: example_world_def)
  from main_by_action [OF ev [of "Some ''closed''"]] main_by_action [OF ev [of "Some ''opened''"]]
    main_by_action [OF ev [of "Some ''synchronize''"]]
  show ?thesis using ev [of "Some ''closed''"] by (simp add: pr example_pr_def)
qed

subsection \<open>C10\<close>

text \<open>
  C10: for a file whose target path is a non-empty string, \<^verbatim>\<open>createComment\<close> returns
  one record per finding, in the order of the findings, with the finding's
  \<^verbatim>\<open>reviewComment\<close> as body, the file's path, and \<^verbatim>\<open>Number(lineNumber)\<close> as line:
  no finding is dropped for its \<^verbatim>\<open>lineNumber\<close>. The empty text gives line 0 and
  text that is no number gives NaN.
\<close>

theorem createComment_one_record_per_finding:
  assumes "to file = Some p" and "p \<noteq> []"
  shows "createComment file chunk aiResponses
           = map (\<lambda>r. \<lparr>body = reviewComment r, path = p, line = Number (lineNumber r)\<rparr>) aiResponses
         \<and> Number [] = Num 0 \<and> Number ''abc'' = NaN"
  using createComment_with_path [OF assms] Number_empty Number_abc by simp

text \<open>
  Three findings for \<^verbatim>\<open>a.ts\<close>, with the line texts \<^verbatim>\<open>"2"\<close>, \<^verbatim>\<open>""\<close> and \<^verbatim>\<open>"abc"\<close>, give three records.
\<close>

theorem createComment_one_record_per_finding_witness:
  "to a_ts = Some ''a.ts'' \<and> ''a.ts'' \<noteq> []
   \<and> createComment a_ts \<lparr>chunk_content = [], changes = []\<rparr>
        [\<lparr>lineNumber = ''2'', reviewComment = ''avoid mutable state''\<rparr>,
         \<lparr>lineNumber = [], reviewComment = ''here''\<rparr>,
         \<lparr>lineNumber = ''abc'', reviewComment = ''there''\<rparr>]
     = [\<lparr>body = ''avoid mutable state'', path = ''a.ts'', line = Num 2\<rparr>,
        \<lparr>body = ''here'', path = ''a.ts'', line = Num 0\<rparr>,
        \<lparr>body = ''there'', path = ''a.ts'', line = NaN\<rparr>]"
proof -
  have h: "to a_ts = Some ''a.ts''" "''a.ts'' \<noteq> []" by (simp_all add: a_ts_def)
  from createComment_one_record_per_finding [OF h] show ?thesis
    using h by (simp add: Number_2)
qed

end
